theory Spec2Isabelle
  imports Complex_Main "HOL-Library.AList"
begin

section \<open>Values, objects and errors\<close>

text \<open>
  The notebook is Python. An exception is a value of \<open>error\<close>, and a computation that may
  raise returns \<open>error + 'a\<close> with \<open>Inl\<close> for the exception. \<open>Raised c\<close> stands for an
  exception of class \<open>c\<close> coming out of the tensor library or the timer.

  Python floats are idealised as exact rationals: rounding, infinities and NaN are outside
  the model. Python integers are unbounded and are \<open>int\<close>.
\<close>

datatype error = IndexError | ZeroDivisionError | Raised string

text \<open>
  A Python object has an identity besides its value. \<open>x is y\<close> compares the identities,
  \<open>x == y\<close> the values.
\<close>

datatype 'v obj = Obj (ident: nat) (payload: 'v)

definition py_is :: "'v obj \<Rightarrow> 'v obj \<Rightarrow> bool" where
  "py_is x y = (ident x = ident y)"

definition py_eq :: "'v obj \<Rightarrow> 'v obj \<Rightarrow> bool" where
  "py_eq x y = (payload x = payload y)"

text \<open>\<open>xs[0]\<close>: the first element, IndexError on the empty list.\<close>

definition item0 :: "'a list \<Rightarrow> error + 'a" where
  "item0 xs = (case xs of [] \<Rightarrow> Inl IndexError | x # _ \<Rightarrow> Inr x)"

text \<open>\<open>x / y\<close> on floats: ZeroDivisionError when the divisor is zero.\<close>

definition py_truediv :: "rat \<Rightarrow> rat \<Rightarrow> error + rat" where
  "py_truediv x y = (if y = 0 then Inl ZeroDivisionError else Inr (x / y))"

text \<open>
  A Python \<open>dict\<close> keeps its keys in insertion order: an association list with distinct
  keys, where storing under a present key replaces the value in place and storing under a
  new key appends (\<open>AList.update\<close>). \<open>dict(pairs)\<close> stores the pairs from left to right.
\<close>

type_synonym ('k, 'a) py_dict = "('k \<times> 'a) list"

definition dict :: "('k \<times> 'a) list \<Rightarrow> ('k, 'a) py_dict" where
  "dict ps = foldl (\<lambda>d (k, v). AList.update k v d) [] ps"

section \<open>var\_dict\<close>

text \<open>
  \<^verbatim>\<open>
  def var_dict(*args):
      callers_local_vars = inspect.currentframe().f_back.f_locals.items()
      return dict([(name, val) for name, val in callers_local_vars if val is arg][0]
                  for arg in args)
  \<close>
  The caller's local variables are the first parameter, as the list of (name, value)
  pairs that \<open>f_locals.items()\<close> yields.
\<close>

definition matches :: "(string \<times> 'v obj) list \<Rightarrow> 'v obj \<Rightarrow> (string \<times> 'v obj) list" where
  "matches callers_local_vars arg = filter (\<lambda>(name, val). py_is val arg) callers_local_vars"

fun bindings :: "(string \<times> 'v obj) list \<Rightarrow> 'v obj list \<Rightarrow> error + (string \<times> 'v obj) list" where
  "bindings callers_local_vars [] = Inr []"
| "bindings callers_local_vars (arg # args) =
     (case item0 (matches callers_local_vars arg) of
        Inl e \<Rightarrow> Inl e
      | Inr p \<Rightarrow> (case bindings callers_local_vars args of
                    Inl e \<Rightarrow> Inl e
                  | Inr ps \<Rightarrow> Inr (p # ps)))"

definition var_dict :: "(string \<times> 'v obj) list \<Rightarrow> 'v obj list \<Rightarrow> error + (string, 'v obj) py_dict" where
  "var_dict callers_local_vars args =
     (case bindings callers_local_vars args of
        Inl e \<Rightarrow> Inl e
      | Inr ps \<Rightarrow> Inr (dict ps))"

section \<open>walltime\<close>

text \<open>
  \<^verbatim>\<open>
  def walltime(stmt, arg_dict, duration=5):
      return benchmark.Timer(stmt=stmt, globals=arg_dict).blocked_autorange(
          min_run_time=duration).median
  \<close>
  \<open>torch.utils.benchmark\<close> is an external library. Its \<open>Timer(...).blocked_autorange(...)\<close>
  is a parameter of the model: from the statement, its globals and the minimum run time,
  in a state of the outside world \<open>'w\<close> (the clock, the device, the objects the statement
  mutates), it either raises or returns a Measurement and the next state.
\<close>

text \<open>
  Modelled from the spec: the Measurement object that \<open>blocked_autorange\<close> returns, which
  belongs to \<open>torch.utils.benchmark\<close> and is not in the repository. The spec has the
  timing loop record one sample per batch; a Measurement holds these samples.
\<close>

record measurement =
  sample_times :: "rat list"

text \<open>
  Modelled from the spec: the median of the collected per-batch samples, which the
  library computes and the repository does not. It is the middle one of the sorted
  samples, or the mean of the two middle ones when their number is even. The loop of the
  spec runs batches until one is long enough, so it collects at least one sample;
  \<open>median_of []\<close> is 0 only to make the function total, and nothing is proved about it.
\<close>

definition median_of :: "rat list \<Rightarrow> rat" where
  "median_of xs =
     (if xs = [] then 0
      else let s = sort xs; n = length xs in
        if odd n then s ! (n div 2)
        else (s ! (n div 2 - 1) + s ! (n div 2)) / 2)"

text \<open>
  Modelled from the spec: the \<open>median\<close> attribute of a Measurement, the median of its
  samples.
\<close>

definition median :: "measurement \<Rightarrow> rat" where
  "median m = median_of (sample_times m)"

text \<open>The arithmetic mean of the samples, which the spec sets the median against.\<close>

definition mean_of :: "rat list \<Rightarrow> rat" where
  "mean_of xs = sum_list xs / of_nat (length xs)"

type_synonym ('v, 'w) timer =
  "string \<Rightarrow> (string, 'v obj) py_dict \<Rightarrow> rat \<Rightarrow> 'w \<Rightarrow> error + measurement \<times> 'w"

definition walltime ::
    "('v, 'w) timer \<Rightarrow> string \<Rightarrow> (string, 'v obj) py_dict \<Rightarrow> rat \<Rightarrow> 'w \<Rightarrow> error + rat \<times> 'w" where
  "walltime blocked_autorange stmt arg_dict duration w =
     (case blocked_autorange stmt arg_dict duration w of
        Inl e \<Rightarrow> Inl e
      | Inr (m, w') \<Rightarrow> Inr (median m, w'))"

text \<open>The default \<open>duration=5\<close>.\<close>

definition walltime5 ::
    "('v, 'w) timer \<Rightarrow> string \<Rightarrow> (string, 'v obj) py_dict \<Rightarrow> 'w \<Rightarrow> error + rat \<times> 'w" where
  "walltime5 blocked_autorange stmt arg_dict w = walltime blocked_autorange stmt arg_dict 5 w"

section \<open>Matrix multiplication and memory bandwidth cells\<close>

text \<open>
  \<^verbatim>\<open>
  matmul_tflops[f'n={n}'][dtype] = 2*n**3 / t / 1e12
  \<close>
  \<open>**\<close> binds tighter than \<open>*\<close>, and \<open>*\<close> and \<open>/\<close> associate to the left: the integer
  \<open>2 * n ^ 3\<close> is divided by \<open>t\<close>, and the quotient by \<open>1e12\<close>.
\<close>

definition matmul_flop :: "int \<Rightarrow> int" where
  "matmul_flop n = 2 * n ^ 3"

definition matmul_tflops :: "int \<Rightarrow> rat \<Rightarrow> error + rat" where
  "matmul_tflops n t =
     (case py_truediv (of_int (matmul_flop n)) t of
        Inl e \<Rightarrow> Inl e
      | Inr q \<Rightarrow> py_truediv q (10 ^ 12))"

text \<open>The spec's cost of multiplying an \<open>a \<times> c\<close> matrix by a \<open>c \<times> b\<close> one.\<close>

definition spec_matmul_cost :: "int \<Rightarrow> int \<Rightarrow> int \<Rightarrow> int" where
  "spec_matmul_cost a b c = 2 * a * b * c"

text \<open>
  \<^verbatim>\<open>
  a = torch.randn(n,device='mps')
  t = walltime('a * 1.2', var_dict(a))
  vector[n]['TFLOPS'] = n / t / 1e12
  vector[n]['GB/s'] = 8 * n / t / 1e9
  \<close>
  \<open>torch.randn\<close> without a \<open>dtype\<close> makes a float32 tensor. The element sizes are the
  tensor library's: 32 and 16 bits.
\<close>

datatype dtype = Float32 | Float16

fun element_size :: "dtype \<Rightarrow> int" where
  "element_size Float32 = 4"
| "element_size Float16 = 2"

definition vector_tflops :: "int \<Rightarrow> rat \<Rightarrow> error + rat" where
  "vector_tflops n t =
     (case py_truediv (of_int n) t of
        Inl e \<Rightarrow> Inl e
      | Inr q \<Rightarrow> py_truediv q (10 ^ 12))"

definition vector_gbps :: "int \<Rightarrow> rat \<Rightarrow> error + rat" where
  "vector_gbps n t =
     (case py_truediv (of_int (8 * n)) t of
        Inl e \<Rightarrow> Inl e
      | Inr q \<Rightarrow> py_truediv q (10 ^ 9))"

text \<open>The spec's bandwidth of an elementwise operation: \<open>k * n / t\<close>.\<close>

definition spec_bandwidth :: "int \<Rightarrow> int \<Rightarrow> rat \<Rightarrow> rat" where
  "spec_bandwidth k n t = of_int (k * n) / t"

section \<open>layer\_benchmark\<close>

text \<open>\<open>str\<close> of an integer, as an f-string field \<open>{b}\<close> formats it: decimal digits.\<close>

definition digit_char :: "nat \<Rightarrow> char" where
  "digit_char d = ''0123456789'' ! d"

function str_nat :: "nat \<Rightarrow> string" where
  "str_nat n = (if n < 10 then [digit_char n] else str_nat (n div 10) @ [digit_char (n mod 10)])"
  by pat_completeness auto
termination
  by (relation "measure id") auto

declare str_nat.simps [simp del]

definition str_int :: "int \<Rightarrow> string" where
  "str_int i = (if i < 0 then CHR ''-'' # str_nat (nat (- i)) else str_nat (nat i))"

text \<open>
  \<open>results = defaultdict(lambda: {})\<close> and \<open>results[c][r] = v\<close>: reading \<open>results[c]\<close>
  stores an empty dict under a missing \<open>c\<close>, then \<open>v\<close> is stored in that dict under \<open>r\<close>.
  \<open>pd.DataFrame(results)\<close> has the outer keys as its columns and the inner keys as its
  rows; the model returns the dict of dicts itself, and \<open>cell\<close> reads one entry.
\<close>

type_synonym table = "(string, (string, rat) py_dict) py_dict"

definition setitem2 :: "table \<Rightarrow> string \<Rightarrow> string \<Rightarrow> rat \<Rightarrow> table" where
  "setitem2 results c r v =
     AList.update c (AList.update r v (case map_of results c of None \<Rightarrow> [] | Some d \<Rightarrow> d)) results"

definition cell :: "table \<Rightarrow> string \<Rightarrow> string \<Rightarrow> rat option" where
  "cell results c r = (case map_of results c of None \<Rightarrow> None | Some d \<Rightarrow> map_of d r)"

text \<open>
  \<^verbatim>\<open>
  def layer_benchmark(layer, hidden_size, seq_lens, batch_sizes, cross_attention=False):
      h = hidden_size
      results = defaultdict(lambda: {})
      encoder_state = 'encoder_hidden_states=X' if cross_attention else ''
      for s in seq_lens:
          for b in batch_sizes:
              ffn = 16*b*s*h*h / 1e12  # TFLOP for the Feed-Forward Network
              atten = (4*b*h*s*s + 8*b*s*h*h) / 1e12  # TFLOP for attention
              forward = ffn + (2 if cross_attention else 1) * atten

              X = torch.randn(b, s, h, device='mps').half()
              results[f'batch={b}'][f'fwd seq_len={s}'] = forward / walltime(
                  f'layer(X, {encoder_state})', var_dict(layer, X))
              results[f'batch={b}'][f'fwd+bwd seq_len={s}'] = 3 * forward / walltime(
                  f'layer(X, {encoder_state})[0].sum().backward()', var_dict(layer, X))
      return pd.DataFrame(results)
  \<close>
\<close>

definition ffn_cost :: "int \<Rightarrow> int \<Rightarrow> int \<Rightarrow> rat" where
  "ffn_cost b s h = of_int (16 * b * s * h * h) / 10 ^ 12"

definition atten_cost :: "int \<Rightarrow> int \<Rightarrow> int \<Rightarrow> rat" where
  "atten_cost b s h = of_int (4 * b * h * s * s + 8 * b * s * h * h) / 10 ^ 12"

definition forward_cost :: "bool \<Rightarrow> int \<Rightarrow> int \<Rightarrow> int \<Rightarrow> rat" where
  "forward_cost cross_attention b s h =
     ffn_cost b s h + (if cross_attention then 2 else 1) * atten_cost b s h"

definition encoder_state :: "bool \<Rightarrow> string" where
  "encoder_state cross_attention = (if cross_attention then ''encoder_hidden_states=X'' else [])"

definition fwd_stmt :: "bool \<Rightarrow> string" where
  "fwd_stmt cross_attention = ''layer(X, '' @ encoder_state cross_attention @ '')''"

definition bwd_stmt :: "bool \<Rightarrow> string" where
  "bwd_stmt cross_attention =
     ''layer(X, '' @ encoder_state cross_attention @ '')[0].sum().backward()''"

definition batch_label :: "int \<Rightarrow> string" where
  "batch_label b = ''batch='' @ str_int b"

definition fwd_label :: "int \<Rightarrow> string" where
  "fwd_label s = ''fwd seq_len='' @ str_int s"

definition bwd_label :: "int \<Rightarrow> string" where
  "bwd_label s = ''fwd+bwd seq_len='' @ str_int s"

text \<open>
  The local variables of the frame of \<open>layer_benchmark\<close> that \<open>var_dict(layer, X)\<close>
  searches. \<open>f_locals\<close> lists the parameters first, so \<open>layer\<close> is its first entry, and
  \<open>X\<close> is its last. The twelve locals between them (\<open>hidden_size\<close>, \<open>seq_lens\<close>,
  \<open>batch_sizes\<close>, \<open>cross_attention\<close>, \<open>h\<close>, \<open>results\<close>, \<open>encoder_state\<close>, \<open>s\<close>,
  \<open>b\<close>, \<open>ffn\<close>, \<open>atten\<close>, \<open>forward\<close>) are left out: the search for \<open>layer\<close> stops at
  the first entry, and \<open>X\<close> is a tensor made in this iteration, which none of them is.
\<close>

definition frame_locals :: "'v obj \<Rightarrow> 'v obj \<Rightarrow> (string \<times> 'v obj) list" where
  "frame_locals layer X = [(''layer'', layer), (''X'', X)]"

text \<open>
  \<open>torch.randn(b, s, h, device='mps').half()\<close> is a parameter as the timer is: it raises
  (no device, no memory, a negative size) or returns the new tensor.
\<close>

type_synonym ('v, 'w) randn = "int \<Rightarrow> int \<Rightarrow> int \<Rightarrow> 'w \<Rightarrow> error + 'v obj \<times> 'w"

text \<open>The body of the inner loop: one sweep point.\<close>

definition sweep_point ::
    "('v, 'w) timer \<Rightarrow> ('v, 'w) randn \<Rightarrow> 'v obj \<Rightarrow> int \<Rightarrow> bool \<Rightarrow> int \<Rightarrow> int
     \<Rightarrow> table \<Rightarrow> 'w \<Rightarrow> error + table \<times> 'w" where
  "sweep_point tm randn layer h cross_attention s b results w =
     (let forward = forward_cost cross_attention b s h in
      case randn b s h w of
        Inl e \<Rightarrow> Inl e
      | Inr (X, w1) \<Rightarrow>
     (case var_dict (frame_locals layer X) [layer, X] of
        Inl e \<Rightarrow> Inl e
      | Inr d1 \<Rightarrow>
     (case walltime5 tm (fwd_stmt cross_attention) d1 w1 of
        Inl e \<Rightarrow> Inl e
      | Inr (t1, w2) \<Rightarrow>
     (case py_truediv forward t1 of
        Inl e \<Rightarrow> Inl e
      | Inr q1 \<Rightarrow>
     (let results1 = setitem2 results (batch_label b) (fwd_label s) q1 in
      case var_dict (frame_locals layer X) [layer, X] of
        Inl e \<Rightarrow> Inl e
      | Inr d2 \<Rightarrow>
     (case walltime5 tm (bwd_stmt cross_attention) d2 w2 of
        Inl e \<Rightarrow> Inl e
      | Inr (t2, w3) \<Rightarrow>
     (case py_truediv (3 * forward) t2 of
        Inl e \<Rightarrow> Inl e
      | Inr q2 \<Rightarrow>
          Inr (setitem2 results1 (batch_label b) (bwd_label s) q2, w3))))))))"

text \<open>\<open>for b in batch_sizes\<close>, at one sequence length.\<close>

fun batch_loop ::
    "('v, 'w) timer \<Rightarrow> ('v, 'w) randn \<Rightarrow> 'v obj \<Rightarrow> int \<Rightarrow> bool \<Rightarrow> int \<Rightarrow> int list
     \<Rightarrow> table \<Rightarrow> 'w \<Rightarrow> error + table \<times> 'w" where
  "batch_loop tm randn layer h cross_attention s [] results w = Inr (results, w)"
| "batch_loop tm randn layer h cross_attention s (b # bs) results w =
     (case sweep_point tm randn layer h cross_attention s b results w of
        Inl e \<Rightarrow> Inl e
      | Inr (results', w') \<Rightarrow> batch_loop tm randn layer h cross_attention s bs results' w')"

text \<open>\<open>for s in seq_lens\<close>.\<close>

fun seq_loop ::
    "('v, 'w) timer \<Rightarrow> ('v, 'w) randn \<Rightarrow> 'v obj \<Rightarrow> int \<Rightarrow> bool \<Rightarrow> int list \<Rightarrow> int list
     \<Rightarrow> table \<Rightarrow> 'w \<Rightarrow> error + table \<times> 'w" where
  "seq_loop tm randn layer h cross_attention batch_sizes [] results w = Inr (results, w)"
| "seq_loop tm randn layer h cross_attention batch_sizes (s # ss) results w =
     (case batch_loop tm randn layer h cross_attention s batch_sizes results w of
        Inl e \<Rightarrow> Inl e
      | Inr (results', w') \<Rightarrow> seq_loop tm randn layer h cross_attention batch_sizes ss results' w')"

definition layer_benchmark ::
    "('v, 'w) timer \<Rightarrow> ('v, 'w) randn \<Rightarrow> 'v obj \<Rightarrow> int \<Rightarrow> int list \<Rightarrow> int list \<Rightarrow> bool
     \<Rightarrow> 'w \<Rightarrow> error + table \<times> 'w" where
  "layer_benchmark tm randn layer hidden_size seq_lens batch_sizes cross_attention w =
     seq_loop tm randn layer hidden_size cross_attention batch_sizes seq_lens [] w"

text \<open>The (column, row) keys of the entries of a table, in the order of the dicts.\<close>

definition entries :: "table \<Rightarrow> (string \<times> string) list" where
  "entries tbl = concat (map (\<lambda>(c, d). map (\<lambda>(r, v). (c, r)) d) tbl)"

section \<open>Basic facts\<close>

lemma item0_Inr: "item0 xs = Inr x \<longleftrightarrow> xs \<noteq> [] \<and> x = hd xs"
  by (auto simp: item0_def split: list.splits)

lemma py_truediv_Inr: "py_truediv x y = Inr q \<longleftrightarrow> y \<noteq> 0 \<and> q = x / y"
  by (auto simp: py_truediv_def)

lemma set_update_subset: "set (AList.update k v al) \<subseteq> insert (k, v) (set al)"
  by (induction al) auto

lemma set_foldl_update:
  "set (foldl (\<lambda>d (k, v). AList.update k v d) acc ps) \<subseteq> set acc \<union> set ps"
proof (induction ps arbitrary: acc)
  case Nil
  then show ?case by simp
next
  case (Cons p ps)
  obtain k v where p: "p = (k, v)" by (cases p)
  have "set (foldl (\<lambda>d (k, v). AList.update k v d) (AList.update k v acc) ps)
          \<subseteq> set (AList.update k v acc) \<union> set ps"
    by (rule Cons.IH)
  also have "\<dots> \<subseteq> insert (k, v) (set acc) \<union> set ps"
    using set_update_subset [of k v acc] by auto
  finally show ?case by (auto simp: p)
qed

lemma keys_foldl_update:
  "fst ` set (foldl (\<lambda>d (k, v). AList.update k v d) acc ps) = fst ` set acc \<union> fst ` set ps"
proof (induction ps arbitrary: acc)
  case Nil
  then show ?case by simp
next
  case (Cons p ps)
  obtain k v where p: "p = (k, v)" by (cases p)
  show ?case by (auto simp: p Cons.IH dom_update)
qed

lemma set_dict: "set (dict ps) \<subseteq> set ps"
  using set_foldl_update [of "[]" ps] by (simp add: dict_def)

lemma keys_dict: "fst ` set (dict ps) = fst ` set ps"
  using keys_foldl_update [of "[]" ps] by (simp add: dict_def)

lemma str_int_lits:
  "str_int 2 = ''2''" "str_int 4 = ''4''" "str_int 128 = ''128''" "str_int 512 = ''512''"
  by (simp_all add: str_int_def str_nat.simps digit_char_def)

lemma labels:
  "batch_label 2 = ''batch=2''" "batch_label 4 = ''batch=4''"
  "fwd_label 128 = ''fwd seq_len=128''" "fwd_label 512 = ''fwd seq_len=512''"
  "bwd_label 128 = ''fwd+bwd seq_len=128''" "bwd_label 512 = ''fwd+bwd seq_len=512''"
  by (simp_all add: batch_label_def fwd_label_def bwd_label_def str_int_lits)

lemma fwd_neq_bwd: "fwd_label s \<noteq> bwd_label s'"
  by (simp add: fwd_label_def bwd_label_def)

lemma cell_setitem2_same: "cell (setitem2 results c r v) c r = Some v"
  by (simp add: cell_def setitem2_def update_conv')

lemma cell_setitem2_other: "r' \<noteq> r \<Longrightarrow> cell (setitem2 results c r v) c r' = cell results c r'"
  by (simp add: cell_def setitem2_def update_conv' split: option.splits)

section \<open>Name recovery by identity\<close>

lemma matches_empty: "matches locals arg = [] \<longleftrightarrow> (\<forall>p\<in>set locals. \<not> py_is (snd p) arg)"
  by (auto simp: matches_def filter_empty_conv)

lemma hd_matches:
  "matches locals arg \<noteq> [] \<Longrightarrow>
     hd (matches locals arg) \<in> set locals \<and> py_is (snd (hd (matches locals arg))) arg"
proof -
  assume ne: "matches locals arg \<noteq> []"
  then have "hd (matches locals arg) \<in> set (matches locals arg)" by simp
  then show ?thesis by (auto simp: matches_def)
qed

lemma bindings_Inr:
  "bindings locals args = Inr ps \<Longrightarrow>
     ps = map (\<lambda>a. hd (matches locals a)) args \<and> (\<forall>a\<in>set args. matches locals a \<noteq> [])"
proof (induction args arbitrary: ps)
  case Nil
  then show ?case by simp
next
  case (Cons a args)
  then show ?case
    by (auto simp: item0_Inr split: sum.splits)
qed

lemma bindings_Inl:
  "bindings locals args = Inl e \<longleftrightarrow> e = IndexError \<and> (\<exists>a\<in>set args. matches locals a = [])"
proof (induction args)
  case Nil
  then show ?case by simp
next
  case (Cons a args)
  show ?case
  proof (cases "matches locals a")
    case Nil
    then show ?thesis by (auto simp: item0_def)
  next
    case (Cons p ps)
    then show ?thesis using Cons.IH
      by (auto simp: item0_def split: sum.splits)
  qed
qed

lemma var_dict_Inr:
  "var_dict locals args = Inr d \<longleftrightarrow>
     (\<forall>a\<in>set args. matches locals a \<noteq> []) \<and> d = dict (map (\<lambda>a. hd (matches locals a)) args)"
proof
  assume "var_dict locals args = Inr d"
  then obtain ps where ps: "bindings locals args = Inr ps" and d: "d = dict ps"
    by (auto simp: var_dict_def split: sum.splits)
  from bindings_Inr [OF ps] d
  show "(\<forall>a\<in>set args. matches locals a \<noteq> []) \<and> d = dict (map (\<lambda>a. hd (matches locals a)) args)"
    by simp
next
  assume r: "(\<forall>a\<in>set args. matches locals a \<noteq> []) \<and> d = dict (map (\<lambda>a. hd (matches locals a)) args)"
  show "var_dict locals args = Inr d"
  proof (cases "bindings locals args")
    case (Inl e)
    with r show ?thesis by (auto simp: bindings_Inl)
  next
    case (Inr ps)
    with bindings_Inr [OF Inr] r show ?thesis by (simp add: var_dict_def)
  qed
qed

lemma var_dict_frame:
  "var_dict (frame_locals layer X) [layer, X] =
     Inr (if py_is layer X then [(''layer'', layer)] else [(''layer'', layer), (''X'', X)])"
  by (simp add: var_dict_def frame_locals_def matches_def py_is_def item0_def dict_def)

text \<open>
  C8: the names \<open>var_dict\<close> binds are recovered from the caller's local variables by object
  identity. When \<open>var_dict\<close> returns, every binding of the result is a caller local whose
  value \<open>is\<close> one of the passed arguments; every argument has its name, that of the first
  local identical to it, among the keys; and a caller local that is identical to none of
  the arguments is not in the result, however equal its value may be to theirs (with the
  distinct names of a frame, not even its name is a key).
\<close>

theorem var_dict_by_identity:
  assumes "var_dict locals args = Inr d"
  shows "(\<forall>(name, val)\<in>set d. (name, val) \<in> set locals \<and> (\<exists>arg\<in>set args. py_is val arg))
       \<and> (\<forall>arg\<in>set args. \<exists>name val. item0 (matches locals arg) = Inr (name, val)
              \<and> py_is val arg \<and> name \<in> fst ` set d)
       \<and> (\<forall>(name, val)\<in>set locals. (\<forall>arg\<in>set args. \<not> py_is val arg) \<longrightarrow> (name, val) \<notin> set d)
       \<and> (distinct (map fst locals) \<longrightarrow>
            (\<forall>(name, val)\<in>set locals. (\<forall>arg\<in>set args. \<not> py_is val arg) \<longrightarrow> name \<notin> fst ` set d))"
proof -
  let ?ps = "map (\<lambda>a. hd (matches locals a)) args"
  from assms have ne: "\<forall>a\<in>set args. matches locals a \<noteq> []" and d: "d = dict ?ps"
    by (simp_all add: var_dict_Inr)
  have sub: "set d \<subseteq> set ?ps" unfolding d by (rule set_dict)
  have keys: "fst ` set d = fst ` set ?ps" unfolding d by (rule keys_dict)
  have A: "(name, val) \<in> set locals \<and> (\<exists>arg\<in>set args. py_is val arg)"
    if "(name, val) \<in> set d" for name val
  proof -
    from that sub obtain a where a: "a \<in> set args" and eq: "(name, val) = hd (matches locals a)"
      by auto
    from ne a have "matches locals a \<noteq> []" by simp
    from hd_matches [OF this] eq a show ?thesis by (metis snd_conv)
  qed
  have B: "\<exists>name val. item0 (matches locals arg) = Inr (name, val) \<and> py_is val arg \<and> name \<in> fst ` set d"
    if "arg \<in> set args" for arg
  proof -
    from ne that have m: "matches locals arg \<noteq> []" by simp
    obtain name val where nv: "hd (matches locals arg) = (name, val)"
      by (cases "hd (matches locals arg)")
    have "item0 (matches locals arg) = Inr (name, val)" using m nv by (simp add: item0_Inr)
    moreover have "py_is val arg" using hd_matches [OF m] nv by simp
    moreover have "name \<in> fst ` set d" unfolding keys using that nv by force
    ultimately show ?thesis by blast
  qed
  have C: "(name, val) \<notin> set d"
    if "(name, val) \<in> set locals" "\<forall>arg\<in>set args. \<not> py_is val arg" for name val
    using A that by blast
  have D: "name \<notin> fst ` set d"
    if dist: "distinct (map fst locals)" and "(name, val) \<in> set locals"
       "\<forall>arg\<in>set args. \<not> py_is val arg" for name val
  proof
    assume "name \<in> fst ` set d"
    then obtain v' where v': "(name, v') \<in> set d" by auto
    from A [OF v'] have "(name, v') \<in> set locals" and ex: "\<exists>arg\<in>set args. py_is v' arg" by simp_all
    with dist that(2) have "v' = val" by (meson eq_key_imp_eq_value)
    with ex that(3) show False by blast
  qed
  from A B C D show ?thesis by blast
qed

text \<open>
  Two locals hold equal lists that are different objects; the second is passed. Only
  \<open>y\<close> is bound.
\<close>

theorem var_dict_by_identity_witness:
  "var_dict [(''x'', Obj 1 [1::int, 2]), (''y'', Obj 2 [1, 2])] [Obj 2 [1, 2]] = Inr [(''y'', Obj 2 [1, 2])]
   \<and> py_eq (Obj 1 [1::int, 2]) (Obj 2 [1, 2])
   \<and> \<not> py_is (Obj 1 [1::int, 2]) (Obj 2 [1, 2])
   \<and> (''x'', Obj 1 [1::int, 2]) \<notin> set [(''y'', Obj 2 [1::int, 2])]
   \<and> ''x'' \<notin> fst ` set [(''y'', Obj 2 [1::int, 2])]"
proof -
  have h: "var_dict [(''x'', Obj 1 [1::int, 2]), (''y'', Obj 2 [1, 2])] [Obj 2 [1, 2]]
             = Inr [(''y'', Obj 2 [1, 2])]"
    by (simp add: var_dict_def matches_def py_is_def item0_def dict_def)
  show ?thesis
    using h var_dict_by_identity [OF h]
    by (simp add: py_eq_def py_is_def)
qed

text \<open>
  C10, as amended: \<open>var_dict\<close> raises exactly when some positional argument is identical
  to the value of no local variable of the caller, and the exception is then the IndexError
  of \<open>[0]\<close> on the empty list of matches; it returns a mapping exactly when every argument
  is identical to the value of some caller local. So a temporary or a literal is bound
  when, and only when, it is the very object that a caller local holds.
\<close>

theorem var_dict_raises_iff_unmatched:
  "(var_dict locals args = Inl e \<longleftrightarrow>
      e = IndexError \<and> (\<exists>arg\<in>set args. \<forall>(name, val)\<in>set locals. \<not> py_is val arg))
   \<and> ((\<exists>d. var_dict locals args = Inr d) \<longleftrightarrow>
      (\<forall>arg\<in>set args. \<exists>(name, val)\<in>set locals. py_is val arg))"
proof -
  have "var_dict locals args = Inl e \<longleftrightarrow> bindings locals args = Inl e"
    by (auto simp: var_dict_def split: sum.splits)
  also have "\<dots> \<longleftrightarrow> e = IndexError \<and> (\<exists>a\<in>set args. matches locals a = [])"
    by (rule bindings_Inl)
  also have "\<dots> \<longleftrightarrow> e = IndexError \<and> (\<exists>arg\<in>set args. \<forall>(name, val)\<in>set locals. \<not> py_is val arg)"
    by (simp add: matches_empty case_prod_beta)
  finally have raises: "var_dict locals args = Inl e \<longleftrightarrow>
      e = IndexError \<and> (\<exists>arg\<in>set args. \<forall>(name, val)\<in>set locals. \<not> py_is val arg)" .
  have "(\<exists>d. var_dict locals args = Inr d) \<longleftrightarrow> (\<forall>a\<in>set args. matches locals a \<noteq> [])"
    by (simp add: var_dict_Inr)
  also have "\<dots> \<longleftrightarrow> (\<forall>arg\<in>set args. \<exists>(name, val)\<in>set locals. py_is val arg)"
    by (simp add: matches_empty case_prod_beta)
  finally have returns: "(\<exists>d. var_dict locals args = Inr d) \<longleftrightarrow>
      (\<forall>arg\<in>set args. \<exists>(name, val)\<in>set locals. py_is val arg)" .
  from raises returns show ?thesis by (rule conjI)
qed

text \<open>
  \<open>x = [1, 2]; var_dict([1, 2])\<close>: the list display makes a new object, equal to the one
  \<open>x\<close> holds and not identical to it, and the call raises. \<open>var_dict(x)\<close> returns.
\<close>

theorem var_dict_raises_iff_unmatched_witness:
  "var_dict [(''x'', Obj 1 [1::int, 2])] [Obj 7 [1::int, 2]] = Inl IndexError
   \<and> py_eq (Obj 1 [1::int, 2]) (Obj 7 [1, 2])
   \<and> (\<exists>d. var_dict [(''x'', Obj 1 [1::int, 2])] [Obj 1 [1::int, 2]] = Inr d)"
  using var_dict_raises_iff_unmatched [of "[(''x'', Obj 1 [1::int, 2])]" "[Obj 7 [1::int, 2]]" IndexError]
    var_dict_raises_iff_unmatched [of "[(''x'', Obj 1 [1::int, 2])]" "[Obj 1 [1::int, 2]]" IndexError]
  by (simp add: py_is_def py_eq_def)

text \<open>
  \<open>x = 0; var_dict(0)\<close>: CPython keeps one object for the integer 0, so the literal is the
  object that \<open>x\<close> holds. The call does not raise: the literal is bound, under the name
  \<open>x\<close>.
\<close>

theorem var_dict_binds_identical_literal:
  "var_dict [(''x'', Obj 1 (0::int))] [Obj 1 (0::int)] = Inr [(''x'', Obj 1 0)]
   \<and> var_dict [(''x'', Obj 1 (0::int))] [Obj 1 (0::int)] \<noteq> Inl IndexError"
  by (simp add: var_dict_def matches_def py_is_def item0_def dict_def)

section \<open>The median of the samples\<close>

lemma count_le_nth:
  assumes "sorted s" and "k < length s"
  shows "Suc k \<le> length (filter (\<lambda>x. x \<le> (s ! k :: rat)) s)"
proof -
  have all: "\<forall>x\<in>set (take (Suc k) s). x \<le> s ! k"
  proof
    fix x assume "x \<in> set (take (Suc k) s)"
    then obtain i where i: "i < Suc k" "i < length s" "x = s ! i"
      by (auto simp: in_set_conv_nth)
    with assms show "x \<le> s ! k" by (simp add: sorted_nth_mono)
  qed
  have "s = take (Suc k) s @ drop (Suc k) s" by simp
  then have "length (filter (\<lambda>x. x \<le> s ! k) s) =
     length (filter (\<lambda>x. x \<le> s ! k) (take (Suc k) s))
       + length (filter (\<lambda>x. x \<le> s ! k) (drop (Suc k) s))"
    by (metis filter_append length_append)
  moreover have "filter (\<lambda>x. x \<le> s ! k) (take (Suc k) s) = take (Suc k) s"
    using all by (simp add: filter_id_conv)
  moreover have "length (take (Suc k) s) = Suc k" using assms(2) by simp
  ultimately show ?thesis by simp
qed

lemma count_ge_nth:
  assumes "sorted s" and "k < length s"
  shows "length s - k \<le> length (filter (\<lambda>x. (s ! k :: rat) \<le> x) s)"
proof -
  have all: "\<forall>x\<in>set (drop k s). s ! k \<le> x"
  proof
    fix x assume "x \<in> set (drop k s)"
    then obtain i where i: "i < length s - k" "x = s ! (k + i)"
      by (auto simp: in_set_conv_nth)
    with assms show "s ! k \<le> x" by (simp add: sorted_nth_mono)
  qed
  have "s = take k s @ drop k s" by simp
  then have "length (filter (\<lambda>x. s ! k \<le> x) s) =
     length (filter (\<lambda>x. s ! k \<le> x) (take k s))
       + length (filter (\<lambda>x. s ! k \<le> x) (drop k s))"
    by (metis filter_append length_append)
  moreover have "filter (\<lambda>x. s ! k \<le> x) (drop k s) = drop k s"
    using all by (simp add: filter_id_conv)
  ultimately show ?thesis by simp
qed

lemma length_filter_sort: "length (filter P (sort xs)) = length (filter P (xs :: rat list))"
  by (simp add: filter_sort)

lemma length_filter_mono:
  "(\<And>x. P x \<Longrightarrow> Q x) \<Longrightarrow> length (filter P xs) \<le> length (filter Q xs)"
  by (induction xs) auto

text \<open>
  \<open>median_of\<close> is a median: at least half of the samples are at most it, and at least
  half are at least it.
\<close>

lemma median_of_is_median:
  assumes "xs \<noteq> []"
  shows "length xs \<le> 2 * length (filter (\<lambda>x. x \<le> median_of xs) xs)
       \<and> length xs \<le> 2 * length (filter (\<lambda>x. median_of xs \<le> x) xs)"
proof -
  define s where "s = sort xs"
  define n where "n = length s"
  have srt: "sorted s" and n: "n = length xs" "0 < n"
    using assms by (simp_all add: s_def n_def)
  have cnt: "length (filter P xs) = length (filter P s)" for P
    by (simp add: s_def length_filter_sort)
  show ?thesis
  proof (cases "odd n")
    case True
    then have med: "median_of xs = s ! (n div 2)"
      using assms by (simp add: median_of_def Let_def s_def n_def)
    have k: "n div 2 < length s" using n by (simp add: n_def)
    from count_le_nth [OF srt k] count_ge_nth [OF srt k] True
    show ?thesis unfolding med cnt n(1) [symmetric] n_def [symmetric]
      by (auto elim!: oddE)
  next
    case False
    then have med: "median_of xs = (s ! (n div 2 - 1) + s ! (n div 2)) / 2"
      using assms by (simp add: median_of_def Let_def s_def n_def)
    from False n have n2: "2 \<le> n" by (cases n) auto
    have k1: "n div 2 - 1 < length s" and k2: "n div 2 < length s"
      using n2 by (simp_all add: n_def [symmetric])
    have le: "s ! (n div 2 - 1) \<le> s ! (n div 2)"
      using srt k2 by (simp add: sorted_nth_mono)
    have lo: "s ! (n div 2 - 1) \<le> median_of xs" and hi: "median_of xs \<le> s ! (n div 2)"
      using le unfolding med by simp_all
    have a: "Suc (n div 2 - 1) \<le> length (filter (\<lambda>x. x \<le> median_of xs) s)"
      using count_le_nth [OF srt k1]
        length_filter_mono [of "\<lambda>x. x \<le> s ! (n div 2 - 1)" "\<lambda>x. x \<le> median_of xs" s] lo
      by fastforce
    have b: "n - n div 2 \<le> length (filter (\<lambda>x. median_of xs \<le> x) s)"
      using count_ge_nth [OF srt k2]
        length_filter_mono [of "\<lambda>x. s ! (n div 2) \<le> x" "\<lambda>x. median_of xs \<le> x" s] hi
      unfolding n_def by fastforce
    from a b False n2 show ?thesis unfolding cnt n(1) [symmetric]
      by (auto elim!: evenE)
  qed
qed

lemma median_demo: "median \<lparr>sample_times = [1, 2, 9]\<rparr> = 2"
  by (simp add: median_def median_of_def)

section \<open>The timer\<close>

lemma walltime_Inr:
  "walltime tm stmt d dur w = Inr (t, w') \<longleftrightarrow> (\<exists>m. tm stmt d dur w = Inr (m, w') \<and> t = median m)"
  by (auto simp: walltime_def split: sum.splits)

lemma walltime_Inl:
  "walltime tm stmt d dur w = Inl e \<longleftrightarrow> tm stmt d dur w = Inl e"
  by (auto simp: walltime_def split: sum.splits)

text \<open>
  C1: for every statement, input mapping and duration, when the timer's blocked
  auto-ranging run returns its Measurement, \<open>walltime\<close> returns one number, the median of
  the per-batch samples of that Measurement: the middle of the sorted samples, with at
  least half of the samples at most it and at least half at least it. It is computed from
  the samples alone, and it is not their mean.
\<close>

theorem walltime_returns_median:
  assumes "blocked_autorange stmt arg_dict duration w = Inr (m, w')"
      and "sample_times m \<noteq> []"
  shows "walltime blocked_autorange stmt arg_dict duration w
           = Inr (median_of (sample_times m), w')
       \<and> length (sample_times m)
           \<le> 2 * length (filter (\<lambda>x. x \<le> median_of (sample_times m)) (sample_times m))
       \<and> length (sample_times m)
           \<le> 2 * length (filter (\<lambda>x. median_of (sample_times m) \<le> x) (sample_times m))"
  using assms(1) median_of_is_median [OF assms(2)]
  by (simp add: walltime_def median_def)

text \<open>
  Three samples with an outlier: the median is 2 and the mean 4, and \<open>walltime\<close> returns 2.
  With four samples it is the mean of the two middle ones.
\<close>

theorem walltime_returns_median_witness:
  "walltime (\<lambda>stmt arg_dict duration w. Inr (\<lparr>sample_times = [9, 1, 2]\<rparr>, w + 1))
      ''a @ b'' [(''a'', Obj 1 ()), (''b'', Obj 2 ())] 5 (0::nat) = Inr (2, 1)
   \<and> mean_of [9, 1, 2] = 4
   \<and> walltime (\<lambda>stmt arg_dict duration w. Inr (\<lparr>sample_times = [4, 1, 3, 2]\<rparr>, w + 1))
      ''a @ b'' [(''a'', Obj 1 ()), (''b'', Obj 2 ())] 5 (0::nat) = Inr (5 / 2, 1)"
proof -
  have m3: "median_of [9, 1, 2] = 2" and m4: "median_of [4, 1, 3, 2] = 5 / 2"
    by (simp_all add: median_of_def)
  have mean: "mean_of [9, 1, 2] = 4"
    by (simp add: mean_of_def)
  from walltime_returns_median
    [of "\<lambda>stmt arg_dict duration w. Inr (\<lparr>sample_times = [9, 1, 2]\<rparr>, w + 1)"
        "''a @ b''" "[(''a'', Obj 1 ()), (''b'', Obj 2 ())]" 5 "0::nat"
        "\<lparr>sample_times = [9, 1, 2]\<rparr>" "1::nat"]
  have a: "walltime (\<lambda>stmt arg_dict duration w. Inr (\<lparr>sample_times = [9, 1, 2]\<rparr>, w + 1))
      ''a @ b'' [(''a'', Obj 1 ()), (''b'', Obj 2 ())] 5 (0::nat) = Inr (2, 1)"
    by (simp add: m3)
  from walltime_returns_median
    [of "\<lambda>stmt arg_dict duration w. Inr (\<lparr>sample_times = [4, 1, 3, 2]\<rparr>, w + 1)"
        "''a @ b''" "[(''a'', Obj 1 ()), (''b'', Obj 2 ())]" 5 "0::nat"
        "\<lparr>sample_times = [4, 1, 3, 2]\<rparr>" "1::nat"]
  have b: "walltime (\<lambda>stmt arg_dict duration w. Inr (\<lparr>sample_times = [4, 1, 3, 2]\<rparr>, w + 1))
      ''a @ b'' [(''a'', Obj 1 ()), (''b'', Obj 2 ())] 5 (0::nat) = Inr (5 / 2, 1)"
    by (simp add: m4)
  from a mean b show ?thesis by simp
qed

section \<open>Cost models\<close>

text \<open>
  C2: for every matrix size \<open>n\<close>, the FLOP count that the matrix multiplication cell
  divides by the measured time and by \<open>1e12\<close> is \<open>2 * n ^ 3\<close>, which is the spec's
  \<open>2abc\<close> at \<open>a = b = c = n\<close>; it is 4,194,304 at 128 and 268,435,456 at 512.
\<close>

theorem matmul_flop_is_2abc:
  "matmul_flop n = spec_matmul_cost n n n
   \<and> matmul_flop 128 = 4194304
   \<and> matmul_flop 512 = 268435456
   \<and> matmul_tflops n t =
       (if t = 0 then Inl ZeroDivisionError
        else Inr (of_int (spec_matmul_cost n n n) / t / 10 ^ 12))"
proof -
  have a: "matmul_flop n = spec_matmul_cost n n n"
    by (simp add: matmul_flop_def spec_matmul_cost_def power3_eq_cube)
  have b: "matmul_flop 128 = 4194304" "matmul_flop 512 = 268435456"
    by (simp_all add: matmul_flop_def)
  have c: "matmul_tflops n t =
       (if t = 0 then Inl ZeroDivisionError
        else Inr (of_int (spec_matmul_cost n n n) / t / 10 ^ 12))"
    unfolding matmul_tflops_def a by (simp add: py_truediv_def)
  from a b c show ?thesis by simp
qed

text \<open>
  C3: for every hidden size \<open>h\<close>, sequence length \<open>s\<close> and batch size \<open>b\<close>, the
  feed-forward cost of \<open>layer_benchmark\<close> is \<open>16 b s h\<^sup>2\<close> FLOP and its attention cost
  \<open>4 b h s\<^sup>2 + 8 b s h\<^sup>2\<close> FLOP (the code holds both in TFLOP, divided by \<open>1e12\<close>); at
  \<open>h = 1024\<close>, \<open>s = 128\<close>, \<open>b = 2\<close> they are 4,294,967,296 and 2,281,701,376 FLOP.
\<close>

theorem layer_cost_formulas:
  "ffn_cost b s h * 10 ^ 12 = of_int (16 * b * s * h\<^sup>2)
   \<and> atten_cost b s h * 10 ^ 12 = of_int (4 * b * h * s\<^sup>2 + 8 * b * s * h\<^sup>2)
   \<and> ffn_cost 2 128 1024 * 10 ^ 12 = 4294967296
   \<and> atten_cost 2 128 1024 * 10 ^ 12 = 2281701376"
  by (simp add: ffn_cost_def atten_cost_def power2_eq_square algebra_simps)

text \<open>
  C4: with \<open>cross_attention=True\<close> the forward cost is the feed-forward cost plus two
  attention terms, with \<open>cross_attention=False\<close> plus one: cross-attention adds exactly
  one attention term.
\<close>

theorem cross_attention_adds_one_atten:
  "forward_cost True b s h = ffn_cost b s h + 2 * atten_cost b s h
   \<and> forward_cost False b s h = ffn_cost b s h + 1 * atten_cost b s h
   \<and> forward_cost True b s h - forward_cost False b s h = atten_cost b s h"
  by (simp add: forward_cost_def)

text \<open>
  C6, as amended: for every vector length \<open>n\<close> of the elementwise benchmark over float32
  tensors, the bandwidth entry is \<open>8 n / t / 1e9\<close> GB/s, that is \<open>2 k n / t\<close> bytes per
  second with \<open>k = 4\<close> the float32 element size: twice the spec's \<open>k n / t\<close>.
\<close>

theorem vector_bandwidth_counts_8_bytes:
  "vector_gbps n t =
     (if t = 0 then Inl ZeroDivisionError
      else Inr (spec_bandwidth (2 * element_size Float32) n t / 10 ^ 9))"
  by (simp add: vector_gbps_def py_truediv_def spec_bandwidth_def)

text \<open>
  At \<open>n = 65536\<close> and \<open>t = 1\<close> the entry is \<open>524288 / 1e9\<close>, while \<open>k n / t\<close> at
  \<open>k = 4\<close> is 262144: the entry is not that number, in bytes per second or in GB/s.
\<close>

theorem vector_bandwidth_not_kn_over_t:
  "vector_gbps 65536 1 = Inr (524288 / 10 ^ 9)
   \<and> vector_gbps 65536 1 \<noteq> Inr (spec_bandwidth (element_size Float32) 65536 1)
   \<and> vector_gbps 65536 1 \<noteq> Inr (spec_bandwidth (element_size Float32) 65536 1 / 10 ^ 9)"
  by (simp add: vector_gbps_def py_truediv_def spec_bandwidth_def)

section \<open>The sweep of layer\_benchmark\<close>

lemma sweep_point_Inr:
  assumes "sweep_point tm randn layer h cross s b results w = Inr (results', w')"
  shows "\<exists>X w1 d m1 w2 m2.
           randn b s h w = Inr (X, w1)
         \<and> var_dict (frame_locals layer X) [layer, X] = Inr d
         \<and> tm (fwd_stmt cross) d 5 w1 = Inr (m1, w2)
         \<and> tm (bwd_stmt cross) d 5 w2 = Inr (m2, w')
         \<and> median m1 \<noteq> 0 \<and> median m2 \<noteq> 0
         \<and> results' =
             setitem2
               (setitem2 results (batch_label b) (fwd_label s)
                  (forward_cost cross b s h / median m1))
               (batch_label b) (bwd_label s) (3 * forward_cost cross b s h / median m2)"
  using assms
  unfolding sweep_point_def Let_def walltime5_def
  by (auto simp: walltime_Inr py_truediv_Inr split: sum.splits prod.splits)

lemma sweep_point_ok:
  assumes "randn b s h w = Inr (X, w1)"
      and "var_dict (frame_locals layer X) [layer, X] = Inr d"
      and "tm (fwd_stmt cross) d 5 w1 = Inr (m1, w2)"
      and "tm (bwd_stmt cross) d 5 w2 = Inr (m2, w')"
      and "median m1 \<noteq> 0" "median m2 \<noteq> 0"
  shows "sweep_point tm randn layer h cross s b results w =
           Inr (setitem2
               (setitem2 results (batch_label b) (fwd_label s)
                  (forward_cost cross b s h / median m1))
               (batch_label b) (bwd_label s) (3 * forward_cost cross b s h / median m2), w')"
  using assms
  unfolding sweep_point_def Let_def walltime5_def
  by (simp add: walltime_def py_truediv_def)

lemma batch_loop_Cons_Inr:
  "batch_loop tm randn layer h cross s (b # bs) results w = Inr (r', w') \<longleftrightarrow>
     (\<exists>r1 w1. sweep_point tm randn layer h cross s b results w = Inr (r1, w1)
            \<and> batch_loop tm randn layer h cross s bs r1 w1 = Inr (r', w'))"
  by (auto split: sum.splits)

lemma seq_loop_Cons_Inr:
  "seq_loop tm randn layer h cross bss (s # ss) results w = Inr (r', w') \<longleftrightarrow>
     (\<exists>r1 w1. batch_loop tm randn layer h cross s bss results w = Inr (r1, w1)
            \<and> seq_loop tm randn layer h cross bss ss r1 w1 = Inr (r', w'))"
  by (auto split: sum.splits)

text \<open>
  C5: at every sweep point that completes, the forward entry is the analytic forward cost
  over the measured forward time, and the forward+backward entry is three times that same
  forward cost over the measured forward+backward time, whatever the configuration.
\<close>

theorem fwd_bwd_cost_is_3x_forward:
  assumes "sweep_point tm randn layer h cross s b results w = Inr (results', w')"
  shows "\<exists>X w1 d t1 w2 t2.
           randn b s h w = Inr (X, w1)
         \<and> var_dict (frame_locals layer X) [layer, X] = Inr d
         \<and> walltime5 tm (fwd_stmt cross) d w1 = Inr (t1, w2)
         \<and> walltime5 tm (bwd_stmt cross) d w2 = Inr (t2, w')
         \<and> cell results' (batch_label b) (fwd_label s) = Some (forward_cost cross b s h / t1)
         \<and> cell results' (batch_label b) (bwd_label s) = Some ((3 * forward_cost cross b s h) / t2)"
proof -
  from sweep_point_Inr [OF assms] obtain X w1 d m1 w2 m2 where
      r: "randn b s h w = Inr (X, w1)"
      and d: "var_dict (frame_locals layer X) [layer, X] = Inr d"
      and t1: "tm (fwd_stmt cross) d 5 w1 = Inr (m1, w2)"
      and t2: "tm (bwd_stmt cross) d 5 w2 = Inr (m2, w')"
      and res: "results' =
             setitem2
               (setitem2 results (batch_label b) (fwd_label s)
                  (forward_cost cross b s h / median m1))
               (batch_label b) (bwd_label s) (3 * forward_cost cross b s h / median m2)"
    by blast
  have c1: "cell results' (batch_label b) (fwd_label s) = Some (forward_cost cross b s h / median m1)"
    unfolding res using fwd_neq_bwd [of s s]
    by (simp add: cell_setitem2_other cell_setitem2_same)
  have c2: "cell results' (batch_label b) (bwd_label s) = Some ((3 * forward_cost cross b s h) / median m2)"
    unfolding res by (simp add: cell_setitem2_same)
  have w1: "walltime5 tm (fwd_stmt cross) d w1 = Inr (median m1, w2)"
    using t1 by (simp add: walltime5_def walltime_def)
  have w2: "walltime5 tm (bwd_stmt cross) d w2 = Inr (median m2, w')"
    using t2 by (simp add: walltime5_def walltime_def)
  from r d w1 w2 c1 c2 show ?thesis by blast
qed

text \<open>One sweep point with a timer whose median is always 2.\<close>

theorem fwd_bwd_cost_is_3x_forward_witness:
  "sweep_point
      (\<lambda>stmt d dur w. Inr (\<lparr>sample_times = [1, 2, 9]\<rparr>, w + 1))
      (\<lambda>b s h w. Inr (Obj w (), w + 1))
      (Obj 0 ()) 1024 False 128 2 [] (1::nat)
     = Inr ([(''batch=2'', [(''fwd seq_len=128'', forward_cost False 2 128 1024 / 2),
                            (''fwd+bwd seq_len=128'', 3 * forward_cost False 2 128 1024 / 2)])], 4)
   \<and> (\<exists>t1 t2.
         cell [(''batch=2'', [(''fwd seq_len=128'', forward_cost False 2 128 1024 / 2),
                            (''fwd+bwd seq_len=128'', 3 * forward_cost False 2 128 1024 / 2)])]
            (batch_label 2) (fwd_label 128) = Some (forward_cost False 2 128 1024 / t1)
       \<and> cell [(''batch=2'', [(''fwd seq_len=128'', forward_cost False 2 128 1024 / 2),
                            (''fwd+bwd seq_len=128'', 3 * forward_cost False 2 128 1024 / 2)])]
            (batch_label 2) (bwd_label 128) = Some ((3 * forward_cost False 2 128 1024) / t2))"
proof -
  have h: "sweep_point
      (\<lambda>stmt d dur w. Inr (\<lparr>sample_times = [1, 2, 9]\<rparr>, w + 1))
      (\<lambda>b s h w. Inr (Obj w (), w + 1))
      (Obj 0 ()) 1024 False 128 2 [] (1::nat)
     = Inr ([(''batch=2'', [(''fwd seq_len=128'', forward_cost False 2 128 1024 / 2),
                            (''fwd+bwd seq_len=128'', 3 * forward_cost False 2 128 1024 / 2)])], 4)"
    by (simp add: sweep_point_def Let_def var_dict_frame py_is_def walltime5_def walltime_def
        py_truediv_def setitem2_def labels median_demo)
  from fwd_bwd_cost_is_3x_forward [OF h] have
    "\<exists>t1 t2.
         cell [(''batch=2'', [(''fwd seq_len=128'', forward_cost False 2 128 1024 / 2),
                            (''fwd+bwd seq_len=128'', 3 * forward_cost False 2 128 1024 / 2)])]
            (batch_label 2) (fwd_label 128) = Some (forward_cost False 2 128 1024 / t1)
       \<and> cell [(''batch=2'', [(''fwd seq_len=128'', forward_cost False 2 128 1024 / 2),
                            (''fwd+bwd seq_len=128'', 3 * forward_cost False 2 128 1024 / 2)])]
            (batch_label 2) (bwd_label 128) = Some ((3 * forward_cost False 2 128 1024) / t2)"
    by blast
  with h show ?thesis by (rule conjI)
qed

lemma batch_loop_append_Inl:
  assumes "batch_loop tm randn layer h cross s bpre results w = Inr (r1, w1)"
      and "sweep_point tm randn layer h cross s b r1 w1 = Inl e"
  shows "batch_loop tm randn layer h cross s (bpre @ b # bpost) results w = Inl e"
  using assms
proof (induction bpre arbitrary: results w)
  case Nil
  then show ?case by simp
next
  case (Cons a bpre)
  then show ?case by (auto split: sum.splits)
qed

lemma seq_loop_append_Inl:
  assumes "seq_loop tm randn layer h cross bs spre results w = Inr (r1, w1)"
      and "batch_loop tm randn layer h cross s bs r1 w1 = Inl e"
  shows "seq_loop tm randn layer h cross bs (spre @ s # spost) results w = Inl e"
  using assms
proof (induction spre arbitrary: results w)
  case Nil
  then show ?case by simp
next
  case (Cons a spre)
  then show ?case by (auto split: sum.splits)
qed

lemma sweep_failure_aborts:
  assumes "seq_loop tm randn layer h cross (bpre @ b # bpost) spre [] w = Inr (r1, w1)"
      and "batch_loop tm randn layer h cross s bpre r1 w1 = Inr (r2, w2)"
      and "sweep_point tm randn layer h cross s b r2 w2 = Inl e"
  shows "layer_benchmark tm randn layer h (spre @ s # spost) (bpre @ b # bpost) cross w = Inl e"
  unfolding layer_benchmark_def
  by (rule seq_loop_append_Inl [OF assms(1)]) (rule batch_loop_append_Inl [OF assms(2,3)])

lemma sweep_point_timer_raises:
  assumes "randn b s h w = Inr (X, w1)"
      and "var_dict (frame_locals layer X) [layer, X] = Inr d"
      and "tm (fwd_stmt cross) d 5 w1 = Inl e
           \<or> (\<exists>m w2. tm (fwd_stmt cross) d 5 w1 = Inr (m, w2) \<and> median m \<noteq> 0
                 \<and> tm (bwd_stmt cross) d 5 w2 = Inl e)"
  shows "sweep_point tm randn layer h cross s b results w = Inl e"
  using assms
  unfolding sweep_point_def Let_def walltime5_def
  by (auto simp: walltime_def py_truediv_def)

text \<open>
  C7: \<open>walltime\<close> raises exactly the error the timed operation raises, and returns no
  number then. In \<open>layer_benchmark\<close>, when the sweep points before \<open>(s, b)\<close> have
  completed and the operation raises in either measurement of \<open>(s, b)\<close>, the sweep point
  raises that error and so does \<open>layer_benchmark\<close>: nothing is caught, the points after
  it do not run, and no table is returned (the entries stored so far are in a local
  variable of the call and vanish with it).
\<close>

theorem failure_aborts_sweep:
  assumes "seq_loop tm randn layer h cross (bpre @ b # bpost) spre [] w = Inr (r1, w1)"
      and "batch_loop tm randn layer h cross s bpre r1 w1 = Inr (r2, w2)"
      and "randn b s h w2 = Inr (X, w3)"
      and "var_dict (frame_locals layer X) [layer, X] = Inr d"
      and "tm (fwd_stmt cross) d 5 w3 = Inl e
           \<or> (\<exists>m w4. tm (fwd_stmt cross) d 5 w3 = Inr (m, w4) \<and> median m \<noteq> 0
                 \<and> tm (bwd_stmt cross) d 5 w4 = Inl e)"
  shows "(walltime tm stmt d' dur w' = Inl e' \<longleftrightarrow> tm stmt d' dur w' = Inl e')
       \<and> sweep_point tm randn layer h cross s b r2 w2 = Inl e
       \<and> layer_benchmark tm randn layer h (spre @ s # spost) (bpre @ b # bpost) cross w = Inl e"
proof -
  have sp: "sweep_point tm randn layer h cross s b r2 w2 = Inl e"
    by (rule sweep_point_timer_raises [where randn = randn and tm = tm, OF assms(3,4,5)])
  have lb: "layer_benchmark tm randn layer h (spre @ s # spost) (bpre @ b # bpost) cross w = Inl e"
    by (rule sweep_failure_aborts [OF assms(1,2) sp])
  from sp lb show ?thesis by (simp add: walltime_Inl)
qed

text \<open>
  A timer that raises RuntimeError at the second sweep point of the 2 by 2 sweep, the
  first having completed.
\<close>

theorem failure_aborts_sweep_witness:
  "sweep_point
      (\<lambda>stmt d dur w. if w = 5 then Inl (Raised ''RuntimeError'')
                       else Inr (\<lparr>sample_times = [1, 2, 9]\<rparr>, w + 1))
      (\<lambda>b s h w. Inr (Obj w (), w + 1))
      (Obj 0 ()) 1024 False 128 4
      [(''batch=2'', [(''fwd seq_len=128'', forward_cost False 2 128 1024 / 2),
                      (''fwd+bwd seq_len=128'', 3 * forward_cost False 2 128 1024 / 2)])]
      (4::nat)
     = Inl (Raised ''RuntimeError'')
   \<and> layer_benchmark
      (\<lambda>stmt d dur w. if w = 5 then Inl (Raised ''RuntimeError'')
                       else Inr (\<lparr>sample_times = [1, 2, 9]\<rparr>, w + 1))
      (\<lambda>b s h w. Inr (Obj w (), w + 1))
      (Obj 0 ()) 1024 [128, 512] [2, 4] False (1::nat)
     = Inl (Raised ''RuntimeError'')"
proof -
  let ?tm = "\<lambda>(stmt::string) (d::(string, unit obj) py_dict) (dur::rat) (w::nat).
               if w = 5 then Inl (Raised ''RuntimeError'')
               else Inr (\<lparr>sample_times = [1, 2, 9]\<rparr>, w + 1)"
  let ?rn = "\<lambda>(b::int) (s::int) (h::int) (w::nat). Inr (Obj w (), w + 1) :: error + unit obj \<times> nat"
  let ?r2 = "[(''batch=2'', [(''fwd seq_len=128'', forward_cost False 2 128 1024 / 2),
                      (''fwd+bwd seq_len=128'', 3 * forward_cost False 2 128 1024 / 2)])]"
  have a1: "seq_loop ?tm ?rn (Obj 0 ()) 1024 False ([2] @ 4 # []) [] [] 1 = Inr ([], 1)"
    by simp
  have a2: "batch_loop ?tm ?rn (Obj 0 ()) 1024 False 128 [2] [] 1 = Inr (?r2, 4)"
    by (simp add: sweep_point_def Let_def var_dict_frame py_is_def walltime5_def walltime_def
        py_truediv_def setitem2_def labels median_demo)
  have a3: "?rn 4 128 1024 4 = Inr (Obj 4 (), 5)"
    by simp
  have a4: "var_dict (frame_locals (Obj 0 ()) (Obj 4 ())) [Obj 0 (), Obj 4 ()]
              = Inr [(''layer'', Obj 0 ()), (''X'', Obj 4 ())]"
    by (simp add: var_dict_frame py_is_def)
  have a5: "?tm (fwd_stmt False) [(''layer'', Obj 0 ()), (''X'', Obj 4 ())] 5 5 = Inl (Raised ''RuntimeError'')
            \<or> (\<exists>m w4. ?tm (fwd_stmt False) [(''layer'', Obj 0 ()), (''X'', Obj 4 ())] 5 5 = Inr (m, w4)
                  \<and> median m \<noteq> 0
                  \<and> ?tm (bwd_stmt False) [(''layer'', Obj 0 ()), (''X'', Obj 4 ())] 5 w4
                       = Inl (Raised ''RuntimeError''))"
    by (simp add: median_demo)
  from failure_aborts_sweep [where tm = ?tm and randn = ?rn and spost = "[512]", OF a1 a2 a3 a4 a5]
  show ?thesis by simp
qed

lemma sweep_point_returns:
  assumes tm_ok: "\<And>stmt d w. \<exists>m w'. tm stmt d 5 w = Inr (m, w') \<and> median m \<noteq> 0"
      and randn_ok: "\<And>b s w. \<exists>X w'. randn b s h w = Inr (X, w')"
  shows "\<exists>r' w'. sweep_point tm randn layer h cross s b results w = Inr (r', w')"
proof -
  from randn_ok obtain X w1 where r: "randn b s h w = Inr (X, w1)" by blast
  obtain d where d: "var_dict (frame_locals layer X) [layer, X] = Inr d"
    by (simp add: var_dict_frame)
  from tm_ok obtain m1 w2 where t1: "tm (fwd_stmt cross) d 5 w1 = Inr (m1, w2)" "median m1 \<noteq> 0"
    by blast
  from tm_ok obtain m2 w3 where t2: "tm (bwd_stmt cross) d 5 w2 = Inr (m2, w3)" "median m2 \<noteq> 0"
    by blast
  from sweep_point_ok [where randn = randn and tm = tm, OF r d t1(1) t2(1) t1(2) t2(2)]
  show ?thesis by blast
qed

lemma batch_loop_returns:
  assumes tm_ok: "\<And>stmt d w. \<exists>m w'. tm stmt d 5 w = Inr (m, w') \<and> median m \<noteq> 0"
      and randn_ok: "\<And>b s w. \<exists>X w'. randn b s h w = Inr (X, w')"
  shows "\<exists>r' w'. batch_loop tm randn layer h cross s bs results w = Inr (r', w')"
proof (induction bs arbitrary: results w)
  case Nil
  then show ?case by simp
next
  case (Cons b bs)
  from sweep_point_returns [where randn = randn and tm = tm, OF tm_ok randn_ok]
  obtain r1 w1 where "sweep_point tm randn layer h cross s b results w = Inr (r1, w1)"
    by blast
  with Cons.IH [of r1 w1] show ?case by simp
qed

lemma seq_loop_returns:
  assumes tm_ok: "\<And>stmt d w. \<exists>m w'. tm stmt d 5 w = Inr (m, w') \<and> median m \<noteq> 0"
      and randn_ok: "\<And>b s w. \<exists>X w'. randn b s h w = Inr (X, w')"
  shows "\<exists>r' w'. seq_loop tm randn layer h cross bs ss results w = Inr (r', w')"
proof (induction ss arbitrary: results w)
  case Nil
  then show ?case by simp
next
  case (Cons s ss)
  from batch_loop_returns [where randn = randn and tm = tm, OF tm_ok randn_ok]
  obtain r1 w1 where "batch_loop tm randn layer h cross s bs results w = Inr (r1, w1)"
    by blast
  with Cons.IH [of r1 w1] show ?case by simp
qed

lemma layer_benchmark_2x2_shape:
  assumes "layer_benchmark tm randn layer h [128, 512] [2, 4] cross w = Inr (tbl, w')"
  shows "entries tbl =
     [(''batch=2'', ''fwd seq_len=128''), (''batch=2'', ''fwd+bwd seq_len=128''),
      (''batch=2'', ''fwd seq_len=512''), (''batch=2'', ''fwd+bwd seq_len=512''),
      (''batch=4'', ''fwd seq_len=128''), (''batch=4'', ''fwd+bwd seq_len=128''),
      (''batch=4'', ''fwd seq_len=512''), (''batch=4'', ''fwd+bwd seq_len=512'')]"
proof -
  from assms obtain r1 w1 r2 w2 r3 w3 where
      p1: "sweep_point tm randn layer h cross 128 2 [] w = Inr (r1, w1)"
      and p2: "sweep_point tm randn layer h cross 128 4 r1 w1 = Inr (r2, w2)"
      and p3: "sweep_point tm randn layer h cross 512 2 r2 w2 = Inr (r3, w3)"
      and p4: "sweep_point tm randn layer h cross 512 4 r3 w3 = Inr (tbl, w')"
    unfolding layer_benchmark_def
    by (auto simp: seq_loop_Cons_Inr batch_loop_Cons_Inr
          simp del: batch_loop.simps(2) seq_loop.simps(2))
  from sweep_point_Inr [OF p1] obtain a1 a2 where
    r1: "r1 = [(''batch=2'', [(''fwd seq_len=128'', a1), (''fwd+bwd seq_len=128'', a2)])]"
    by (auto simp: setitem2_def labels)
  from sweep_point_Inr [OF p2] obtain a3 a4 where
    r2: "r2 = [(''batch=2'', [(''fwd seq_len=128'', a1), (''fwd+bwd seq_len=128'', a2)]),
               (''batch=4'', [(''fwd seq_len=128'', a3), (''fwd+bwd seq_len=128'', a4)])]"
    unfolding r1 by (auto simp: setitem2_def labels)
  from sweep_point_Inr [OF p3] obtain a5 a6 where
    r3: "r3 = [(''batch=2'', [(''fwd seq_len=128'', a1), (''fwd+bwd seq_len=128'', a2),
                              (''fwd seq_len=512'', a5), (''fwd+bwd seq_len=512'', a6)]),
               (''batch=4'', [(''fwd seq_len=128'', a3), (''fwd+bwd seq_len=128'', a4)])]"
    unfolding r2 by (auto simp: setitem2_def labels)
  from sweep_point_Inr [OF p4] obtain a7 a8 where
    r4: "tbl = [(''batch=2'', [(''fwd seq_len=128'', a1), (''fwd+bwd seq_len=128'', a2),
                              (''fwd seq_len=512'', a5), (''fwd+bwd seq_len=512'', a6)]),
               (''batch=4'', [(''fwd seq_len=128'', a3), (''fwd+bwd seq_len=128'', a4),
                              (''fwd seq_len=512'', a7), (''fwd+bwd seq_len=512'', a8)])]"
    unfolding r3 by (auto simp: setitem2_def labels)
  show ?thesis unfolding r4 by (simp add: entries_def)
qed

text \<open>
  C9: when no operation raises and no median is zero, \<open>layer_benchmark\<close> over the
  sequence lengths 128 and 512 and the batch sizes 2 and 4 returns a table of exactly
  eight entries: the four forward entries and the four forward+backward entries, each
  under its column label \<open>batch=b\<close> and its row label \<open>fwd seq_len=s\<close> or
  \<open>fwd+bwd seq_len=s\<close>. The code always measures both passes.
\<close>

theorem sweep_2x2_table_shape:
  assumes tm_ok: "\<And>stmt d w. \<exists>m w'. tm stmt d 5 w = Inr (m, w') \<and> median m \<noteq> 0"
      and randn_ok: "\<And>b s w. \<exists>X w'. randn b s h w = Inr (X, w')"
  shows "\<exists>tbl w'.
           layer_benchmark tm randn layer h [128, 512] [2, 4] cross w = Inr (tbl, w')
         \<and> entries tbl =
             [(''batch=2'', ''fwd seq_len=128''), (''batch=2'', ''fwd+bwd seq_len=128''),
              (''batch=2'', ''fwd seq_len=512''), (''batch=2'', ''fwd+bwd seq_len=512''),
              (''batch=4'', ''fwd seq_len=128''), (''batch=4'', ''fwd+bwd seq_len=128''),
              (''batch=4'', ''fwd seq_len=512''), (''batch=4'', ''fwd+bwd seq_len=512'')]
         \<and> length (filter (\<lambda>(c, r). r = fwd_label 128 \<or> r = fwd_label 512) (entries tbl)) = 4
         \<and> length (filter (\<lambda>(c, r). r = bwd_label 128 \<or> r = bwd_label 512) (entries tbl)) = 4
         \<and> length (entries tbl) = 8"
proof -
  from seq_loop_returns [where randn = randn and tm = tm, OF tm_ok randn_ok]
  obtain tbl w' where
    lb: "layer_benchmark tm randn layer h [128, 512] [2, 4] cross w = Inr (tbl, w')"
    unfolding layer_benchmark_def by blast
  note sh = layer_benchmark_2x2_shape [OF lb]
  have f: "length (filter (\<lambda>(c, r). r = fwd_label 128 \<or> r = fwd_label 512) (entries tbl)) = 4"
    unfolding sh by (simp add: labels)
  have g: "length (filter (\<lambda>(c, r). r = bwd_label 128 \<or> r = bwd_label 512) (entries tbl)) = 4"
    unfolding sh by (simp add: labels)
  have n: "length (entries tbl) = 8"
    unfolding sh by simp
  from lb sh f g n show ?thesis by blast
qed

text \<open>The sweep with a timer whose median is always 2.\<close>

theorem sweep_2x2_table_shape_witness:
  "\<exists>tbl w'.
      layer_benchmark
        (\<lambda>stmt d dur w. Inr (\<lparr>sample_times = [1, 2, 9]\<rparr>, w + 1))
        (\<lambda>b s h w. Inr (Obj w (), w + 1))
        (Obj 0 ()) 1024 [128, 512] [2, 4] False (1::nat) = Inr (tbl, w')
    \<and> entries tbl =
        [(''batch=2'', ''fwd seq_len=128''), (''batch=2'', ''fwd+bwd seq_len=128''),
         (''batch=2'', ''fwd seq_len=512''), (''batch=2'', ''fwd+bwd seq_len=512''),
         (''batch=4'', ''fwd seq_len=128''), (''batch=4'', ''fwd+bwd seq_len=128''),
         (''batch=4'', ''fwd seq_len=512''), (''batch=4'', ''fwd+bwd seq_len=512'')]
    \<and> length (filter (\<lambda>(c, r). r = fwd_label 128 \<or> r = fwd_label 512) (entries tbl)) = 4
    \<and> length (filter (\<lambda>(c, r). r = bwd_label 128 \<or> r = bwd_label 512) (entries tbl)) = 4
    \<and> length (entries tbl) = 8"
  by (rule sweep_2x2_table_shape) (simp_all add: median_demo)

end
